theory Spec2Isabelle
  imports Main "HOL-Library.AList"
begin

section \<open>Data model\<close>

text \<open>
  The values handled by \<^verbatim>\<open>json-template.ts\<close> and \<^verbatim>\<open>quicksight-stack.ts\<close> are
  JavaScript values of type \<^verbatim>\<open>JsonValue\<close>:
  \<^verbatim>\<open>string | number | boolean | null | JsonValue[] | { [key: string]: JsonValue } | cdk.IResolvable\<close>.
  An object is the list of its own enumerable entries in \<^verbatim>\<open>Object.keys\<close> order.
  A \<^verbatim>\<open>cdk.IResolvable\<close> is a JavaScript object as well (\<^verbatim>\<open>typeof\<close> gives
  \<^verbatim>\<open>'object'\<close>): it is kept apart from plain objects by its own constructor, which
  carries an opaque token number and the object's own enumerable entries.
  Numbers are never inspected by the functions below.
  A \<^typ>\<open>char\<close> stands for a UTF-16 code unit below 256.
\<close>

datatype json =
    JNull
  | JBool bool
  | JNum int
  | JStr string
  | JArr "json list"
  | JObj "(string \<times> json) list"
  | JUnresolved nat "(string \<times> json) list"

text \<open>Path segments of the walker: \<^verbatim>\<open>Array<string | number>\<close>.\<close>

datatype seg = Key string | Index nat

text \<open>
  Thrown values: \<^verbatim>\<open>new Error(message)\<close> of the sanitizer, the \<^verbatim>\<open>TypeError\<close> of a
  property read on \<^verbatim>\<open>null\<close>, and the two \<^verbatim>\<open>RangeError\<close>s of the runtime's
  \<^verbatim>\<open>Intl.DateTimeFormat\<close>.
\<close>

datatype range_reason = InvalidTimeZone string | InvalidTimeValue

datatype error = Error string | TypeError | RangeError range_reason


section \<open>Strings and numbers of the runtime\<close>

definition digitChar :: "nat \<Rightarrow> char" where
  "digitChar d = ''0123456789'' ! (d mod 10)"

text \<open>\<^verbatim>\<open>Number.prototype.toString\<close> on a non-negative integer.\<close>

function showNat :: "nat \<Rightarrow> string" where
  "showNat n = (if n < 10 then [digitChar n] else showNat (n div 10) @ [digitChar n])"
  by pat_completeness auto
termination
  by (relation "measure id") auto

declare showNat.simps [simp del]

definition showInt :: "int \<Rightarrow> string" where
  "showInt i = (if i < 0 then CHR ''-'' # showNat (nat (- i)) else showNat (nat i))"

text \<open>\<^verbatim>\<open>s.padStart(2, '0')\<close>.\<close>

definition padStart2 :: "string \<Rightarrow> string" where
  "padStart2 s = replicate (2 - length s) CHR ''0'' @ s"

text \<open>\<^verbatim>\<open>pathSegments.join('.')\<close>: every segment is converted with \<^verbatim>\<open>String\<close>.\<close>

fun segString :: "seg \<Rightarrow> string" where
  "segString (Key k) = k"
| "segString (Index i) = showNat i"

fun joinDot :: "string list \<Rightarrow> string" where
  "joinDot [] = []"
| "joinDot [s] = s"
| "joinDot (s # t # rest) = s @ ''.'' @ joinDot (t # rest)"

definition joinPath :: "seg list \<Rightarrow> string" where
  "joinPath pathSegments = joinDot (map segString pathSegments)"

text \<open>\<^verbatim>\<open>s.startsWith(p)\<close> and \<^verbatim>\<open>s.includes(p)\<close>.\<close>

fun startsWith :: "string \<Rightarrow> string \<Rightarrow> bool" where
  "startsWith s [] = True"
| "startsWith [] (p # ps) = False"
| "startsWith (c # cs) (p # ps) = (c = p \<and> startsWith cs ps)"

fun includesStr :: "string \<Rightarrow> string \<Rightarrow> bool" where
  "includesStr [] p = (p = [])"
| "includesStr (c # cs) p = (startsWith (c # cs) p \<or> includesStr cs p)"


text \<open>
  Matching one input character against a lower-case ASCII letter of a regular expression
  with the \<^verbatim>\<open>i\<close> flag (and no \<^verbatim>\<open>u\<close> flag): only the two ASCII cases of the letter match.
\<close>

definition asciiLower :: "char \<Rightarrow> char" where
  "asciiLower c =
     (let n = (of_char c :: nat) in if 65 \<le> n \<and> n \<le> 90 then char_of (n + 32) else c)"

definition isDigit :: "char \<Rightarrow> bool" where
  "isDigit c = (let n = (of_char c :: nat) in 48 \<le> n \<and> n \<le> 57)"

definition digitValue :: "char \<Rightarrow> nat" where
  "digitValue c = of_char c - 48"

text \<open>
  The white space that \<^verbatim>\<open>parseInt\<close> skips, among the code units below 256:
  TAB, LF, VT, FF, CR, space and the no-break space.
\<close>

definition isWhiteSpace :: "char \<Rightarrow> bool" where
  "isWhiteSpace c = (of_char c \<in> {9, 10, 11, 12, 13, 32, 160 :: nat})"

definition digitsValue :: "string \<Rightarrow> nat" where
  "digitsValue ds = foldl (\<lambda>acc c. 10 * acc + digitValue c) 0 ds"

text \<open>
  \<^verbatim>\<open>parseInt(s, 10)\<close>: leading white space is skipped, one sign is read, then the longest
  run of decimal digits; \<^verbatim>\<open>NaN\<close> (here \<open>None\<close>) when that run is empty. Numbers are exact
  integers in this model.
\<close>

definition parseInt :: "string \<Rightarrow> int option" where
  "parseInt s =
     (let t = dropWhile isWhiteSpace s;
          neg = (t \<noteq> [] \<and> hd t = CHR ''-'');
          u = (if t \<noteq> [] \<and> (hd t = CHR ''-'' \<or> hd t = CHR ''+'') then tl t else t);
          ds = takeWhile isDigit u
      in if ds = [] then None
         else Some (if neg then - int (digitsValue ds) else int (digitsValue ds)))"

text \<open>\<^verbatim>\<open>s.split(':')\<close> for a one-character separator.\<close>

fun splitStr :: "char \<Rightarrow> string \<Rightarrow> string list" where
  "splitStr sep [] = [[]]"
| "splitStr sep (c # cs) =
     (if c = sep then [] # splitStr sep cs
      else (case splitStr sep cs of [] \<Rightarrow> [[c]] | w # ws \<Rightarrow> (c # w) # ws))"


section \<open>TreeWalker and Sanitizer (json-template.ts)\<close>

text \<open>
  \<^verbatim>\<open>visitJson(value, visitor, pathSegments)\<close>. The visitor may throw, which ends the
  walk; the two \<^verbatim>\<open>forEach\<close> calls are \<open>visitItems\<close> and \<open>visitEntries\<close>. The guard
  \<^verbatim>\<open>!cdk.Token.isUnresolved(value)\<close> keeps the walker out of a resolvable object.
\<close>

fun visitJson :: "json \<Rightarrow> (json \<Rightarrow> seg list \<Rightarrow> error + unit) \<Rightarrow> seg list \<Rightarrow> error + unit"
  and visitItems :: "json list \<Rightarrow> nat \<Rightarrow> (json \<Rightarrow> seg list \<Rightarrow> error + unit) \<Rightarrow> seg list \<Rightarrow> error + unit"
  and visitEntries :: "(string \<times> json) list \<Rightarrow> (json \<Rightarrow> seg list \<Rightarrow> error + unit) \<Rightarrow> seg list \<Rightarrow> error + unit"
where
  "visitJson v visitor pathSegments =
     (case visitor v pathSegments of
        Inl e \<Rightarrow> Inl e
      | Inr _ \<Rightarrow>
         (case v of
            JArr items \<Rightarrow> visitItems items 0 visitor pathSegments
          | JObj kvs \<Rightarrow> visitEntries kvs visitor pathSegments
          | _ \<Rightarrow> Inr ()))"
| "visitItems [] index visitor pathSegments = Inr ()"
| "visitItems (item # rest) index visitor pathSegments =
     (case visitJson item visitor (pathSegments @ [Index index]) of
        Inl e \<Rightarrow> Inl e
      | Inr _ \<Rightarrow> visitItems rest (Suc index) visitor pathSegments)"
| "visitEntries [] visitor pathSegments = Inr ()"
| "visitEntries (kv # rest) visitor pathSegments =
     (case visitJson (snd kv) visitor (pathSegments @ [Key (fst kv)]) of
        Inl e \<Rightarrow> Inl e
      | Inr _ \<Rightarrow> visitEntries rest visitor pathSegments)"

text \<open>
  \<^verbatim>\<open>/arn:aws:[^:]+:[^:]+:\d{12}:/i.test(node)\<close>. A match that starts at the head of \<open>s\<close>
  reads \<^verbatim>\<open>arn:aws:\<close> in either case, two non-empty runs of characters other than the
  colon, each closed by a colon (a run cannot hold a colon, so it ends at the next one), then
  twelve digits and a colon. \<open>arnTest\<close> tries every start position.
\<close>

definition colonRun :: "string \<Rightarrow> string option" where
  "colonRun s =
     (let run = takeWhile (\<lambda>c. c \<noteq> CHR '':'') s; rest = dropWhile (\<lambda>c. c \<noteq> CHR '':'') s
      in if run \<noteq> [] \<and> rest \<noteq> [] then Some (tl rest) else None)"

definition arnMatchAt :: "string \<Rightarrow> bool" where
  "arnMatchAt s =
     (8 \<le> length s \<and> map asciiLower (take 8 s) = ''arn:aws:'' \<and>
      (case colonRun (drop 8 s) of
         None \<Rightarrow> False
       | Some r1 \<Rightarrow>
          (case colonRun r1 of
             None \<Rightarrow> False
           | Some r2 \<Rightarrow>
              13 \<le> length r2 \<and> list_all isDigit (take 12 r2) \<and> r2 ! 12 = CHR '':'')))"

fun arnTest :: "string \<Rightarrow> bool" where
  "arnTest [] = arnMatchAt []"
| "arnTest (c # cs) = (arnMatchAt (c # cs) \<or> arnTest cs)"

text \<open>
  The visitor of \<^verbatim>\<open>assertNoHardCodedValues\<close>. \<open>isUnresolved\<close> is
  \<^verbatim>\<open>cdk.Token.isUnresolved\<close> on strings, a function of the CDK library.
\<close>

definition hardCodedVisitor :: "(string \<Rightarrow> bool) \<Rightarrow> string \<Rightarrow> json \<Rightarrow> seg list \<Rightarrow> error + unit" where
  "hardCodedVisitor isUnresolved messageContext node pathSegments =
     (case node of
        JStr s \<Rightarrow>
          if isUnresolved s then Inr ()
          else if arnTest s then
            Inl (Error (''Hardcoded ARN detected at '' @ joinPath pathSegments @ '' in '' @ messageContext))
          else if includesStr s ''s3://'' \<and> \<not> includesStr s ''${Token['' then
            Inl (Error (''Hardcoded S3 URI detected at '' @ joinPath pathSegments @ '' in '' @ messageContext))
          else Inr ()
      | _ \<Rightarrow> Inr ())"

definition assertNoHardCodedValues :: "(string \<Rightarrow> bool) \<Rightarrow> json \<Rightarrow> string \<Rightarrow> error + unit" where
  "assertNoHardCodedValues isUnresolved v messageContext =
     visitJson v (hardCodedVisitor isUnresolved messageContext) []"


section \<open>KeyNormalizer and StringReplacer (quicksight-stack.ts)\<close>




text \<open>
  \<^verbatim>\<open>replaceStringRecursively(target, search, replace)\<close> mutates \<open>target\<close> in place and
  returns nothing; the model returns the target as it is after the call. A string passed
  as the target itself is a primitive: there is nothing to mutate.
\<close>

fun replaceStringRecursively :: "json \<Rightarrow> string \<Rightarrow> string \<Rightarrow> json" where
  "replaceStringRecursively (JArr xs) search replace =
     JArr (map (\<lambda>item. if item = JStr search then JStr replace
                        else replaceStringRecursively item search replace) xs)"
| "replaceStringRecursively (JObj kvs) search replace =
     JObj (map (\<lambda>(key, v). (key, if v = JStr search then JStr replace
                                   else replaceStringRecursively v search replace)) kvs)"
| "replaceStringRecursively (JUnresolved i kvs) search replace =
     JUnresolved i (map (\<lambda>(key, v). (key, if v = JStr search then JStr replace
                                   else replaceStringRecursively v search replace)) kvs)"
| "replaceStringRecursively v search replace = v"

text \<open>
  \<^verbatim>\<open>applyDatasetReference(definition, datasetArn, identifier)\<close>. Its first statement, the
  rewrite of the declarations array, is \<open>rebindDeclarations\<close>: the array is mapped, each
  element giving one fresh entry. Reading a property of \<^verbatim>\<open>null\<close> throws.
\<close>

definition declarationKey :: string where
  "declarationKey = ''dataSetIdentifierDeclarations''"

definition declarationEntry :: "string \<Rightarrow> string \<Rightarrow> json" where
  "declarationEntry identifier datasetArn =
     JObj [(''identifier'', JStr identifier), (''dataSetArn'', JStr datasetArn)]"

definition rebindEntries :: "(string \<times> json) list \<Rightarrow> string \<Rightarrow> string \<Rightarrow> (string \<times> json) list" where
  "rebindEntries kvs datasetArn identifier =
     (case map_of kvs declarationKey of
        Some (JArr stubs) \<Rightarrow>
          AList.update declarationKey
            (JArr (map (\<lambda>_. declarationEntry identifier datasetArn) stubs)) kvs
      | _ \<Rightarrow> kvs)"

definition rebindDeclarations :: "json \<Rightarrow> string \<Rightarrow> string \<Rightarrow> error + json" where
  "rebindDeclarations definition datasetArn identifier =
     (case definition of
        JNull \<Rightarrow> Inl TypeError
      | JObj kvs \<Rightarrow> Inr (JObj (rebindEntries kvs datasetArn identifier))
      | JUnresolved i kvs \<Rightarrow> Inr (JUnresolved i (rebindEntries kvs datasetArn identifier))
      | _ \<Rightarrow> Inr definition)"

definition placeholderIdentifier :: string where
  "placeholderIdentifier = ''synnex-org-usage''"

definition placeholderArn :: string where
  "placeholderArn =
     ''arn:aws:quicksight:us-east-1:168000259484:dataset/f135f8e9-8ff0-4224-b130-e007b88ed65e''"

definition applyDatasetReference :: "json \<Rightarrow> string \<Rightarrow> string \<Rightarrow> error + json" where
  "applyDatasetReference definition datasetArn identifier =
     (case rebindDeclarations definition datasetArn identifier of
        Inl e \<Rightarrow> Inl e
      | Inr d \<Rightarrow>
          Inr (replaceStringRecursively
                 (replaceStringRecursively d placeholderIdentifier identifier)
                 placeholderArn datasetArn))"


section \<open>ParameterResolver (cur-parameters.ts)\<close>

text \<open>
  The two configuration layers are optional records of arbitrary values
  (\<^verbatim>\<open>Record<string, any>\<close>); \<open>None\<close> is \<^verbatim>\<open>undefined\<close>.
\<close>

record ParameterSources =
  global :: "(string \<rightharpoonup> json) option"
  stack :: "(string \<rightharpoonup> json) option"

text \<open>
  Of the \<^verbatim>\<open>cdk.CfnParameter\<close> only the field \<^verbatim>\<open>default\<close> is written by the code. The
  field \<^verbatim>\<open>value\<close> of a \<^verbatim>\<open>ParameterDefinition\<close> is the deferred handle
  \<^verbatim>\<open>param.valueAsString\<close> made by the CDK library; it does not depend on the lookup and
  is left out.
\<close>

record CfnParameter =
  paramDefault :: "json option"

record ParameterDefinition =
  parameter :: CfnParameter
  resolved :: "string option"

text \<open>\<^verbatim>\<open>typeof x === 'string' && x.length > 0\<close>, giving the string.\<close>

definition nonEmptyString :: "json option \<Rightarrow> string option" where
  "nonEmptyString x =
     (case x of Some (JStr s) \<Rightarrow> if 0 < length s then Some s else None | _ \<Rightarrow> None)"

text \<open>\<^verbatim>\<open>sources.stack && sources.stack[key]\<close>\<close>

definition layerValue :: "(string \<rightharpoonup> json) option \<Rightarrow> string \<Rightarrow> json option" where
  "layerValue layer key = (case layer of None \<Rightarrow> None | Some m \<Rightarrow> m key)"

definition lookupFromConfig :: "ParameterSources \<Rightarrow> string \<Rightarrow> string option" where
  "lookupFromConfig sources key =
     (let fromStack = layerValue (stack sources) key
      in case nonEmptyString fromStack of
           Some s \<Rightarrow> Some s
         | None \<Rightarrow>
            (let fromGlobal = layerValue (global sources) key
             in case nonEmptyString fromGlobal of Some s \<Rightarrow> Some s | None \<Rightarrow> None))"

text \<open>
  \<^verbatim>\<open>createStringParameter(stack, id, props, sources)\<close>. \<open>tryGetContext\<close> is
  \<^verbatim>\<open>stack.node.tryGetContext\<close>, the deploy-time override (\<open>None\<close> is \<^verbatim>\<open>undefined\<close>);
  \<open>propsDefault\<close> is \<^verbatim>\<open>props.default\<close>. The operator \<^verbatim>\<open>??\<close> passes on to the
  configuration only when the context value is \<^verbatim>\<open>undefined\<close> or \<^verbatim>\<open>null\<close>.
\<close>

definition createStringParameter ::
  "(string \<Rightarrow> json option) \<Rightarrow> string \<Rightarrow> json option \<Rightarrow> ParameterSources \<Rightarrow> ParameterDefinition" where
  "createStringParameter tryGetContext ident propsDefault sources =
     (let contextValue = tryGetContext ident;
          configValue = lookupFromConfig sources ident;
          overrideValue =
            (case contextValue of
               None \<Rightarrow> map_option JStr configValue
             | Some JNull \<Rightarrow> map_option JStr configValue
             | Some v \<Rightarrow> Some v);
          param = \<lparr>paramDefault = propsDefault\<rparr>;
          param = (if overrideValue \<noteq> None \<and> overrideValue \<noteq> Some JNull
                      \<and> overrideValue \<noteq> Some (JStr [])
                   then param\<lparr>paramDefault := overrideValue\<rparr> else param);
          providedDefault = propsDefault
      in \<lparr>parameter = param,
          resolved =
            (case nonEmptyString overrideValue of
               Some s \<Rightarrow> Some s
             | None \<Rightarrow> nonEmptyString providedDefault)\<rparr>)"


section \<open>ScheduleTimeConverter (quicksight-stack.ts)\<close>

text \<open>
  Time values are milliseconds since the epoch, \<open>None\<close> is \<^verbatim>\<open>NaN\<close> (an invalid
  \<^verbatim>\<open>Date\<close>). \<open>timeClip\<close>, \<open>makeDay\<close>, \<open>makeTime\<close> and \<open>dateUTC\<close> are the operations
  of the language standard behind \<^verbatim>\<open>Date.UTC\<close>, with exact integers.
\<close>

definition timeClip :: "int \<Rightarrow> int option" where
  "timeClip t = (if \<bar>t\<bar> \<le> 8640000000000000 then Some t else None)"

definition dayFromYear :: "int \<Rightarrow> int" where
  "dayFromYear y = 365 * (y - 1970) + (y - 1969) div 4 - (y - 1901) div 100 + (y - 1601) div 400"

definition inLeapYear :: "int \<Rightarrow> bool" where
  "inLeapYear y = (y mod 4 = 0 \<and> (y mod 100 \<noteq> 0 \<or> y mod 400 = 0))"

definition daysBeforeMonth :: "bool \<Rightarrow> nat \<Rightarrow> int" where
  "daysBeforeMonth leap m =
     [0, 31, 59, 90, 120, 151, 181, 212, 243, 273, 304, 334] ! (m mod 12)
       + (if leap \<and> 2 \<le> m then 1 else 0)"

definition makeDay :: "int \<Rightarrow> int \<Rightarrow> int \<Rightarrow> int" where
  "makeDay year month date =
     (let ym = year + month div 12; mn = nat (month mod 12)
      in dayFromYear ym + daysBeforeMonth (inLeapYear ym) mn + date - 1)"

definition makeTime :: "int \<Rightarrow> int \<Rightarrow> int \<Rightarrow> int \<Rightarrow> int" where
  "makeTime hour minute sec ms = hour * 3600000 + minute * 60000 + sec * 1000 + ms"

text \<open>\<^verbatim>\<open>Date.UTC(year, month, day, hours, minutes, seconds)\<close>; a year from 0 to 99 means 1900 + year.\<close>

definition dateUTC ::
  "int option \<Rightarrow> int option \<Rightarrow> int option \<Rightarrow> int option \<Rightarrow> int option \<Rightarrow> int option \<Rightarrow> int option" where
  "dateUTC year month day hours minutes seconds =
     (case (year, month, day, hours, minutes, seconds) of
        (Some y, Some mo, Some d, Some h, Some mi, Some s) \<Rightarrow>
          timeClip (makeDay (if 0 \<le> y \<and> y \<le> 99 then 1900 + y else y) mo d * 86400000
                    + makeTime h mi s 0)
      | _ \<Rightarrow> None)"

text \<open>\<^verbatim>\<open>getUTCHours()\<close> and \<^verbatim>\<open>getUTCMinutes()\<close> of a valid date.\<close>

definition hourFromTime :: "int \<Rightarrow> nat" where
  "hourFromTime t = nat ((t div 3600000) mod 24)"

definition minFromTime :: "int \<Rightarrow> nat" where
  "minFromTime t = nat ((t div 60000) mod 60)"

text \<open>\<^verbatim>\<open>n.toString().padStart(2, '0')\<close>, where \<open>n\<close> is \<^verbatim>\<open>NaN\<close> for an invalid date.\<close>

definition twoDigits :: "nat option \<Rightarrow> string" where
  "twoDigits n = padStart2 (case n of None \<Rightarrow> ''NaN'' | Some k \<Rightarrow> showNat k)"

text \<open>
  The runtime's time zone data is a parameter: \<open>resolveTimeZone zone\<close> is \<open>None\<close> when
  \<^verbatim>\<open>new Intl.DateTimeFormat('en-US', {timeZone: zone, ...})\<close> throws, and otherwise the
  \<^verbatim>\<open>formatToParts\<close> of that formatter on a valid date, as (type, value) pairs.
\<close>

type_synonym dateParts = "(string \<times> string) list"

type_synonym timeZones = "string \<Rightarrow> (int \<Rightarrow> dateParts) option"

text \<open>The loop over \<^verbatim>\<open>parts\<close> that fills \<^verbatim>\<open>data\<close>, and \<^verbatim>\<open>parseInt(data.field, 10)\<close>.\<close>

definition collectParts :: "dateParts \<Rightarrow> (string \<rightharpoonup> string)" where
  "collectParts parts =
     foldl (\<lambda>data part. if fst part \<noteq> ''literal'' then data(fst part \<mapsto> snd part) else data)
       Map.empty parts"

definition parseField :: "(string \<rightharpoonup> string) \<Rightarrow> string \<Rightarrow> int option" where
  "parseField data field = (case data field of None \<Rightarrow> None | Some s \<Rightarrow> parseInt s)"

definition getTimeZoneOffset :: "timeZones \<Rightarrow> int option \<Rightarrow> string \<Rightarrow> error + int option" where
  "getTimeZoneOffset resolveTimeZone date timeZone =
     (case resolveTimeZone timeZone of
        None \<Rightarrow> Inl (RangeError (InvalidTimeZone timeZone))
      | Some formatToParts \<Rightarrow>
         (case date of
            None \<Rightarrow> Inl (RangeError InvalidTimeValue)
          | Some t \<Rightarrow>
             (let data = collectParts (formatToParts t);
                  asUtc = dateUTC (parseField data ''year'')
                            (map_option (\<lambda>m. m - 1) (parseField data ''month''))
                            (parseField data ''day'')
                            (parseField data ''hour'')
                            (parseField data ''minute'')
                            (parseField data ''second'')
              in Inr (map_option (\<lambda>a. a - t) asUtc))))"

text \<open>
  \<^verbatim>\<open>const [hour, minute] = localTime.split(':').map((value) => parseInt(value, 10));\<close>
  \<^verbatim>\<open>const reference = new Date(Date.UTC(1970, 0, 1, hour, minute, 0, 0));\<close>
  A missing second element is \<^verbatim>\<open>undefined\<close>, which \<^verbatim>\<open>Date.UTC\<close> reads as \<^verbatim>\<open>NaN\<close>.
\<close>

definition referenceTime :: "string \<Rightarrow> int option" where
  "referenceTime localTime =
     (let fields = map parseInt (splitStr CHR '':'' localTime);
          hour = (case fields of [] \<Rightarrow> None | h # _ \<Rightarrow> h);
          minute = (case fields of _ # m # _ \<Rightarrow> m | _ \<Rightarrow> None)
      in dateUTC (Some 1970) (Some 0) (Some 1) hour minute (Some 0))"

definition convertLocalTimeToUtc :: "timeZones \<Rightarrow> string \<Rightarrow> string \<Rightarrow> error + string" where
  "convertLocalTimeToUtc resolveTimeZone localTime timezone =
     (let reference = referenceTime localTime
      in case getTimeZoneOffset resolveTimeZone reference timezone of
           Inl e \<Rightarrow> Inl e
         | Inr offset \<Rightarrow>
            (let utcDate = (case (reference, offset) of
                              (Some r, Some off) \<Rightarrow> timeClip (r - off)
                            | _ \<Rightarrow> None)
             in Inr (twoDigits (map_option hourFromTime utcDate) @ '':''
                     @ twoDigits (map_option minFromTime utcDate))))"


section \<open>A sample runtime\<close>

text \<open>
  Concrete time zone data for the examples: three zones, each with the constant offset
  it had on the reference date (January 1970), formatted as the \<^verbatim>\<open>en-US\<close> locale
  does. The day number is turned into a civil date with the usual era arithmetic.
\<close>

definition civilFromDays :: "int \<Rightarrow> int \<times> int \<times> int" where
  "civilFromDays days =
     (let z = days + 719468;
          era = z div 146097;
          doe = z mod 146097;
          yoe = (doe - doe div 1460 + doe div 36524 - doe div 146096) div 365;
          doy = doe - (365 * yoe + yoe div 4 - yoe div 100);
          mp = (5 * doy + 2) div 153;
          d = doy - (153 * mp + 2) div 5 + 1;
          m = (if mp < 10 then mp + 3 else mp - 9)
      in (if m \<le> 2 then yoe + era * 400 + 1 else yoe + era * 400, m, d))"

definition enUSParts :: "int \<Rightarrow> int \<Rightarrow> int \<Rightarrow> int \<Rightarrow> int \<Rightarrow> int \<Rightarrow> dateParts" where
  "enUSParts y mo d h mi s =
     [(''month'', padStart2 (showInt mo)), (''literal'', ''/''),
      (''day'', padStart2 (showInt d)), (''literal'', ''/''),
      (''year'', showInt y), (''literal'', '', ''),
      (''hour'', padStart2 (showInt h)), (''literal'', '':''),
      (''minute'', padStart2 (showInt mi)), (''literal'', '':''),
      (''second'', padStart2 (showInt s))]"

definition fixedOffsetZone :: "int \<Rightarrow> int \<Rightarrow> dateParts" where
  "fixedOffsetZone offsetMinutes t =
     (let wall = t + offsetMinutes * 60000;
          ms = wall mod 86400000
      in case civilFromDays (wall div 86400000) of
           (y, mo, d) \<Rightarrow>
             enUSParts y mo d (ms div 3600000) ((ms div 60000) mod 60) ((ms div 1000) mod 60))"

definition sampleZones :: timeZones where
  "sampleZones zone =
     (if zone = ''UTC'' then Some (fixedOffsetZone 0)
      else if zone = ''Asia/Bangkok'' then Some (fixedOffsetZone 420)
      else if zone = ''America/New_York'' then Some (fixedOffsetZone (- 300))
      else None)"


section \<open>Notions of the specification\<close>

text \<open>
  The pre-order sequence of the nodes the walker visits, each with its path: the root,
  then the elements of an array in index order, then the values of a plain object in key
  order. A resolvable object is a leaf.
\<close>

fun walk :: "json \<Rightarrow> seg list \<Rightarrow> (seg list \<times> json) list"
  and walkItems :: "json list \<Rightarrow> nat \<Rightarrow> seg list \<Rightarrow> (seg list \<times> json) list"
  and walkEntries :: "(string \<times> json) list \<Rightarrow> seg list \<Rightarrow> (seg list \<times> json) list"
where
  "walk v p =
     (p, v) # (case v of
                 JArr items \<Rightarrow> walkItems items 0 p
               | JObj kvs \<Rightarrow> walkEntries kvs p
               | _ \<Rightarrow> [])"
| "walkItems [] index p = []"
| "walkItems (item # rest) index p = walk item (p @ [Index index]) @ walkItems rest (Suc index) p"
| "walkEntries [] p = []"
| "walkEntries (kv # rest) p = walk (snd kv) (p @ [Key (fst kv)]) @ walkEntries rest p"

text \<open>A visitor run over a sequence of nodes, stopping at its first failure.\<close>

fun firstError :: "(json \<Rightarrow> seg list \<Rightarrow> error + unit) \<Rightarrow> (seg list \<times> json) list \<Rightarrow> error + unit" where
  "firstError visitor [] = Inr ()"
| "firstError visitor (pv # rest) =
     (case visitor (snd pv) (fst pv) of Inl e \<Rightarrow> Inl e | Inr _ \<Rightarrow> firstError visitor rest)"

text \<open>
  The two forbidden patterns, and a violating node: a string that is not an unresolved
  token and matches one of them.
\<close>

definition forbidden :: "string \<Rightarrow> bool" where
  "forbidden s = (arnTest s \<or> (includesStr s ''s3://'' \<and> \<not> includesStr s ''${Token[''))"

definition violates :: "(string \<Rightarrow> bool) \<Rightarrow> json \<Rightarrow> bool" where
  "violates isUnresolved node =
     (case node of JStr s \<Rightarrow> \<not> isUnresolved s \<and> forbidden s | _ \<Rightarrow> False)"

text \<open>
  Exact substitution on every string of a tree: a string equal to \<open>search\<close> becomes
  \<open>replace\<close>, any other string, and in particular one that only contains \<open>search\<close>,
  stays. \<open>shape\<close> forgets the strings of a tree and keeps everything else: array
  lengths, keys and their order, numbers, booleans and nulls.
\<close>

fun leafSubst :: "string \<Rightarrow> string \<Rightarrow> json \<Rightarrow> json" where
  "leafSubst search replace (JStr x) = JStr (if x = search then replace else x)"
| "leafSubst search replace (JArr xs) = JArr (map (leafSubst search replace) xs)"
| "leafSubst search replace (JObj kvs) =
     JObj (map (\<lambda>(key, v). (key, leafSubst search replace v)) kvs)"
| "leafSubst search replace (JUnresolved i kvs) =
     JUnresolved i (map (\<lambda>(key, v). (key, leafSubst search replace v)) kvs)"
| "leafSubst search replace v = v"

fun shape :: "json \<Rightarrow> json" where
  "shape (JStr x) = JStr []"
| "shape (JArr xs) = JArr (map shape xs)"
| "shape (JObj kvs) = JObj (map (\<lambda>(key, v). (key, shape v)) kvs)"
| "shape (JUnresolved i kvs) = JUnresolved i (map (\<lambda>(key, v). (key, shape v)) kvs)"
| "shape v = v"

text \<open>
  A well-formed local time: two digits, a colon, two digits, with the hour at most 23
  and the minute at most 59; and the hour and minute it denotes.
\<close>

definition wellFormedLocalTime :: "string \<Rightarrow> bool" where
  "wellFormedLocalTime s =
     (case s of
        [h1, h2, c, m1, m2] \<Rightarrow>
          isDigit h1 \<and> isDigit h2 \<and> c = CHR '':'' \<and> isDigit m1 \<and> isDigit m2
          \<and> 10 * digitValue h1 + digitValue h2 \<le> 23
          \<and> 10 * digitValue m1 + digitValue m2 \<le> 59
      | _ \<Rightarrow> False)"

definition hourOf :: "string \<Rightarrow> nat" where
  "hourOf s = 10 * digitValue (s ! 0) + digitValue (s ! 1)"

definition minuteOf :: "string \<Rightarrow> nat" where
  "minuteOf s = 10 * digitValue (s ! 3) + digitValue (s ! 4)"

text \<open>The wall-clock fields that \<^verbatim>\<open>getTimeZoneOffset\<close> reads from the formatter's parts.\<close>

definition showsWallClock :: "dateParts \<Rightarrow> int \<Rightarrow> int \<Rightarrow> int \<Rightarrow> int \<Rightarrow> int \<Rightarrow> int \<Rightarrow> bool" where
  "showsWallClock parts y mo d h mi s =
     (let data = collectParts parts
      in parseField data ''year'' = Some y \<and> parseField data ''month'' = Some mo
       \<and> parseField data ''day'' = Some d \<and> parseField data ''hour'' = Some h
       \<and> parseField data ''minute'' = Some mi \<and> parseField data ''second'' = Some s)"

text \<open>\<^verbatim>\<open>cdk.Token.isUnresolved\<close> on strings, as used in the examples: the token marker occurs.\<close>

definition hasTokenMarker :: "string \<Rightarrow> bool" where
  "hasTokenMarker s = includesStr s ''${Token[''"


section \<open>StringReplacer: exact matches only\<close>

lemma replace_is_leafSubst:
  "t \<noteq> JStr search \<Longrightarrow> replaceStringRecursively t search replace = leafSubst search replace t"
proof (induction t search replace rule: replaceStringRecursively.induct)
  case (1 xs search replace)
  then show ?case by auto
next
  case (2 kvs search replace)
  then show ?case by auto
next
  case (3 i kvs search replace)
  then show ?case by auto
qed auto

lemma replace_item_leafSubst:
  "(if item = JStr search then JStr replace else replaceStringRecursively item search replace)
     = leafSubst search replace item"
  by (simp add: replace_is_leafSubst)

lemma replace_array: "replaceStringRecursively (JArr xs) search replace = JArr (map (leafSubst search replace) xs)"
  by (simp add: replace_item_leafSubst)

lemma replace_object:
  "replaceStringRecursively (JObj kvs) search replace
     = JObj (map (\<lambda>(key, v). (key, leafSubst search replace v)) kvs)"
  by (simp add: replace_item_leafSubst)

lemma replace_resolvable:
  "replaceStringRecursively (JUnresolved i kvs) search replace
     = JUnresolved i (map (\<lambda>(key, v). (key, leafSubst search replace v)) kvs)"
  by (simp add: replace_item_leafSubst)

lemma shape_leafSubst: "shape (leafSubst search replace t) = shape t"
  by (induction t rule: shape.induct) auto

lemma shape_replace: "shape (replaceStringRecursively t search replace) = shape t"
proof (cases "t = JStr search")
  case True
  then show ?thesis by simp
next
  case False
  then show ?thesis by (simp add: replace_is_leafSubst shape_leafSubst)
qed

text \<open>
  Claim C9. \<^verbatim>\<open>replaceStringRecursively\<close> changes exactly the array elements and object
  values that are strings equal to \<open>search\<close>, at every depth, and sets each to
  \<open>replace\<close>: below the target it is the exact substitution \<open>leafSubst\<close>. Nothing else
  changes: the shape of the tree (array lengths, key lists, every node that is not a
  string) is the same, a string that only contains \<open>search\<close> stays, and a string equal
  to \<open>search\<close> becomes \<open>replace\<close>.
\<close>

theorem C9_replace_exact_matches_only:
  "replaceStringRecursively (JArr xs) search replace = JArr (map (leafSubst search replace) xs)
   \<and> replaceStringRecursively (JObj kvs) search replace
        = JObj (map (\<lambda>(key, v). (key, leafSubst search replace v)) kvs)
   \<and> shape (replaceStringRecursively t search replace) = shape t
   \<and> replaceStringRecursively (JArr [JStr ''prefix-X-suffix'', JStr ''X'']) ''X'' replace
        = JArr [JStr ''prefix-X-suffix'', JStr replace]
   \<and> replaceStringRecursively
        (JObj [(''a'', JStr ''prefix-X-suffix''), (''b'', JArr [JStr ''X''])]) ''X'' replace
        = JObj [(''a'', JStr ''prefix-X-suffix''), (''b'', JArr [JStr replace])]"
proof -
  have "replaceStringRecursively (JArr [JStr ''prefix-X-suffix'', JStr ''X'']) ''X'' replace
        = JArr [JStr ''prefix-X-suffix'', JStr replace]"
    by simp
  moreover have "replaceStringRecursively
        (JObj [(''a'', JStr ''prefix-X-suffix''), (''b'', JArr [JStr ''X''])]) ''X'' replace
        = JObj [(''a'', JStr ''prefix-X-suffix''), (''b'', JArr [JStr replace])]"
    by simp
  ultimately show ?thesis
    using replace_array [of xs search replace] replace_object [of kvs search replace]
      shape_replace [of t search replace]
    by blast
qed

text \<open>
  Claim C10. A target that is itself a string is left as it is, also when it equals
  \<open>search\<close>: the function has nothing to assign to. The same string is replaced when
  it is reached as an array element or as an object value.
\<close>

theorem C10_root_string_untouched:
  "replaceStringRecursively (JStr s) search replace = JStr s
   \<and> replaceStringRecursively (JStr search) search replace = JStr search
   \<and> replaceStringRecursively (JArr [JStr search]) search replace = JArr [JStr replace]
   \<and> replaceStringRecursively (JObj [(key, JStr search)]) search replace
        = JObj [(key, JStr replace)]"
  by simp


section \<open>KeyNormalizer\<close>



subsection \<open>Assignment to the keys of a fresh object\<close>












subsection \<open>Idempotence\<close>




subsection \<open>What the normalizer builds\<close>







section \<open>Rebinding the dataset declarations\<close>

lemma rebindEntries_array:
  assumes "map_of kvs declarationKey = Some (JArr stubs)"
  shows "map_of (rebindEntries kvs datasetArn identifier) declarationKey
           = Some (JArr (replicate (length stubs) (declarationEntry identifier datasetArn)))"
    and "map fst (rebindEntries kvs datasetArn identifier) = map fst kvs"
    and "k \<noteq> declarationKey \<Longrightarrow> map_of (rebindEntries kvs datasetArn identifier) k = map_of kvs k"
proof -
  have dom: "declarationKey \<in> fst ` set kvs"
    using assms by (force dest: map_of_SomeD)
  show "map_of (rebindEntries kvs datasetArn identifier) declarationKey
           = Some (JArr (replicate (length stubs) (declarationEntry identifier datasetArn)))"
    using assms by (simp add: rebindEntries_def update_conv' map_replicate_const)
  show "map fst (rebindEntries kvs datasetArn identifier) = map fst kvs"
    using assms dom by (simp add: rebindEntries_def update_keys)
  show "k \<noteq> declarationKey \<Longrightarrow> map_of (rebindEntries kvs datasetArn identifier) k = map_of kvs k"
    using assms by (simp add: rebindEntries_def update_conv')
qed

lemma map_of_map_values:
  "map_of (map (\<lambda>(key, v). (key, f v)) kvs) k = map_option f (map_of kvs k)"
  by (induction kvs) auto

lemma replace_entry_fixed:
  assumes "datasetArn \<noteq> search \<or> replace = datasetArn"
    and "identifier \<noteq> search \<or> replace = identifier"
  shows "replaceStringRecursively
           (JArr (replicate n (declarationEntry identifier datasetArn))) search replace
         = JArr (replicate n (declarationEntry identifier datasetArn))"
  using assms by (auto simp: declarationEntry_def)

lemma replace_object_lookup:
  assumes "map_of kvs k = Some v" and "replaceStringRecursively v search replace = v"
    and "v \<noteq> JStr search"
  shows "\<exists>kvs'. replaceStringRecursively (JObj kvs) search replace = JObj kvs'
           \<and> map_of kvs' k = Some v"
  using assms by (simp add: map_of_map_values)

lemma apply_declarations:
  assumes "map_of kvs declarationKey = Some (JArr stubs)"
    and "datasetArn \<noteq> placeholderIdentifier" and "identifier \<noteq> placeholderArn"
  shows "\<exists>kvs'. applyDatasetReference (JObj kvs) datasetArn identifier = Inr (JObj kvs')
           \<and> map_of kvs' declarationKey
               = Some (JArr (replicate (length stubs) (declarationEntry identifier datasetArn)))"
proof -
  let ?e = "JArr (replicate (length stubs) (declarationEntry identifier datasetArn))"
  have e1: "replaceStringRecursively ?e placeholderIdentifier identifier = ?e"
    using assms(2) by (intro replace_entry_fixed) auto
  have e2: "replaceStringRecursively ?e placeholderArn datasetArn = ?e"
    using assms(3) by (intro replace_entry_fixed) auto
  have "map_of (rebindEntries kvs datasetArn identifier) declarationKey = Some ?e"
    by (rule rebindEntries_array(1) [OF assms(1)])
  from replace_object_lookup [OF this e1]
  obtain kvs1 where k1:
      "replaceStringRecursively (JObj (rebindEntries kvs datasetArn identifier))
         placeholderIdentifier identifier = JObj kvs1"
      "map_of kvs1 declarationKey = Some ?e"
    by auto
  from replace_object_lookup [OF k1(2) e2]
  obtain kvs2 where k2:
      "replaceStringRecursively (JObj kvs1) placeholderArn datasetArn = JObj kvs2"
      "map_of kvs2 declarationKey = Some ?e"
    by auto
  show ?thesis using k1 k2 by (simp add: applyDatasetReference_def rebindDeclarations_def)
qed

text \<open>
  Claim C2, as stated, fails: with three stub entries and one (identifier, reference)
  pair the declarations array has three entries afterwards, not one.
\<close>

theorem C2_three_stubs_give_three_entries:
  "applyDatasetReference
     (JObj [(declarationKey,
             JArr [JObj [(''identifier'', JStr ''a'')], JObj [(''identifier'', JStr ''b'')],
                   JObj [(''identifier'', JStr ''c'')]])])
     ''ref'' ''id''
   = Inr (JObj [(declarationKey,
                 JArr [declarationEntry ''id'' ''ref'', declarationEntry ''id'' ''ref'',
                       declarationEntry ''id'' ''ref''])])
   \<and> applyDatasetReference
     (JObj [(declarationKey,
             JArr [JObj [(''identifier'', JStr ''a'')], JObj [(''identifier'', JStr ''b'')],
                   JObj [(''identifier'', JStr ''c'')]])])
     ''ref'' ''id''
   \<noteq> Inr (JObj [(declarationKey, JArr [declarationEntry ''id'' ''ref''])])"
  by (simp add: applyDatasetReference_def rebindDeclarations_def rebindEntries_def
      declarationEntry_def declarationKey_def placeholderArn_def placeholderIdentifier_def)

text \<open>
  Claim C2, amended. When the declarations key of the target object holds an array, the
  rebinding replaces every element of that array by a generated entry holding the
  supplied (identifier, reference) pair: the array keeps its length, so there is one entry
  per stub that was there (exactly one only when the array held one), the other keys of
  the object keep their place and value. The same holds after the whole of
  \<^verbatim>\<open>applyDatasetReference\<close> when the reference is not the identifier placeholder and the
  identifier is not the placeholder reference.
\<close>

theorem C2_rebind_one_entry_per_stub:
  assumes "map_of kvs declarationKey = Some (JArr stubs)"
  shows "(\<exists>kvs'. rebindDeclarations (JObj kvs) datasetArn identifier = Inr (JObj kvs')
            \<and> map_of kvs' declarationKey
                = Some (JArr (replicate (length stubs) (declarationEntry identifier datasetArn)))
            \<and> map fst kvs' = map fst kvs
            \<and> (\<forall>k. k \<noteq> declarationKey \<longrightarrow> map_of kvs' k = map_of kvs k))
         \<and> (datasetArn \<noteq> placeholderIdentifier \<and> identifier \<noteq> placeholderArn \<longrightarrow>
             (\<exists>kvs'. applyDatasetReference (JObj kvs) datasetArn identifier = Inr (JObj kvs')
                \<and> map_of kvs' declarationKey
                    = Some (JArr (replicate (length stubs)
                                   (declarationEntry identifier datasetArn)))))"
  using rebindEntries_array [OF assms] apply_declarations [OF assms]
  by (simp add: rebindDeclarations_def)

theorem C2_rebind_one_entry_per_stub_witness:
  "map_of [(''sheets'', JArr []), (declarationKey, JArr [JNull, JStr ''stub'', JObj []])]
      declarationKey = Some (JArr [JNull, JStr ''stub'', JObj []])
   \<and> ''ref'' \<noteq> placeholderIdentifier \<and> ''id'' \<noteq> placeholderArn
   \<and> (\<exists>kvs'. applyDatasetReference
         (JObj [(''sheets'', JArr []), (declarationKey, JArr [JNull, JStr ''stub'', JObj []])])
         ''ref'' ''id'' = Inr (JObj kvs')
        \<and> map_of kvs' declarationKey
            = Some (JArr [declarationEntry ''id'' ''ref'', declarationEntry ''id'' ''ref'',
                          declarationEntry ''id'' ''ref'']))"
proof -
  have h: "map_of [(''sheets'', JArr []), (declarationKey, JArr [JNull, JStr ''stub'', JObj []])]
      declarationKey = Some (JArr [JNull, JStr ''stub'', JObj []])"
    by (simp add: declarationKey_def)
  have n: "''ref'' \<noteq> placeholderIdentifier \<and> ''id'' \<noteq> placeholderArn"
    by (simp add: placeholderIdentifier_def placeholderArn_def)
  have r: "replicate (length [JNull, JStr ''stub'', JObj []]) (declarationEntry ''id'' ''ref'')
        = [declarationEntry ''id'' ''ref'', declarationEntry ''id'' ''ref'',
           declarationEntry ''id'' ''ref'']"
    by (simp add: numeral_3_eq_3)
  show ?thesis
    using C2_rebind_one_entry_per_stub [OF h, of "''ref''" "''id''"] h n
    unfolding r by blast
qed


section \<open>TreeWalker and Sanitizer\<close>

lemma firstError_append:
  "firstError visitor (xs @ ys) =
     (case firstError visitor xs of Inl e \<Rightarrow> Inl e | Inr _ \<Rightarrow> firstError visitor ys)"
  by (induction xs) (auto split: sum.splits)

text \<open>The walker runs the visitor over the pre-order sequence and stops at its first failure.\<close>

lemma visit_is_firstError:
  "visitJson v visitor p = firstError visitor (walk v p)"
  "visitItems items index visitor p = firstError visitor (walkItems items index p)"
  "visitEntries kvs visitor p = firstError visitor (walkEntries kvs p)"
proof (induction v visitor p and items index visitor p and kvs visitor p
       rule: visitJson_visitItems_visitEntries.induct)
  case (1 v visitor pathSegments)
  then show ?case by (auto split: sum.splits json.splits)
next
  case (2 index visitor pathSegments)
  then show ?case by simp
next
  case (3 item rest index visitor pathSegments)
  then show ?case by (auto simp: firstError_append split: sum.splits)
next
  case (4 visitor pathSegments)
  then show ?case by simp
next
  case (5 kv rest visitor pathSegments)
  then show ?case by (auto simp: firstError_append split: sum.splits)
qed

lemma visitor_ok_iff:
  "hardCodedVisitor isUnresolved ctx node p = Inr () \<longleftrightarrow> \<not> violates isUnresolved node"
  by (auto simp: hardCodedVisitor_def violates_def forbidden_def split: json.splits)

lemma visitor_violation:
  "violates isUnresolved (JStr s) \<Longrightarrow>
   hardCodedVisitor isUnresolved ctx (JStr s) p =
     Inl (Error ((if arnTest s then ''Hardcoded ARN'' else ''Hardcoded S3 URI'')
                  @ '' detected at '' @ joinPath p @ '' in '' @ ctx))"
  by (auto simp: hardCodedVisitor_def violates_def forbidden_def)

lemma firstError_ok_iff:
  "firstError visitor xs = Inr () \<longleftrightarrow> (\<forall>pv \<in> set xs. visitor (snd pv) (fst pv) = Inr ())"
  by (induction xs) (auto split: sum.splits)

lemma firstError_first:
  assumes "\<forall>pv \<in> set pre. visitor (snd pv) (fst pv) = Inr ()" and "visitor v p = Inl e"
  shows "firstError visitor (pre @ (p, v) # post) = Inl e"
  using assms by (induction pre) (auto split: sum.splits)

lemma assert_ok_iff:
  "assertNoHardCodedValues isUnresolved t ctx = Inr ()
     \<longleftrightarrow> (\<forall>pv \<in> set (walk t []). \<not> violates isUnresolved (snd pv))"
  unfolding assertNoHardCodedValues_def visit_is_firstError(1) firstError_ok_iff visitor_ok_iff ..

lemma assert_fails_iff:
  "(\<exists>e. assertNoHardCodedValues isUnresolved t ctx = Inl e)
     \<longleftrightarrow> (\<exists>pv \<in> set (walk t []). violates isUnresolved (snd pv))"
proof -
  have "(\<exists>e. assertNoHardCodedValues isUnresolved t ctx = Inl e)
          \<longleftrightarrow> assertNoHardCodedValues isUnresolved t ctx \<noteq> Inr ()"
    by (cases "assertNoHardCodedValues isUnresolved t ctx") simp_all
  then show ?thesis
    using assert_ok_iff [of isUnresolved t ctx] by blast
qed

text \<open>
  Claim C5. When a tree holds a violating string at some path (for instance \<open>a.b\<close>) and no
  node before it in pre-order violates, \<^verbatim>\<open>assertNoHardCodedValues\<close> fails with the error
  whose message carries that dotted path and the supplied context; whatever comes after
  it in the walk (\<open>post\<close>, further violations included) plays no part.
\<close>

theorem C5_fails_at_first_violation:
  assumes "walk t [] = pre @ (p, JStr s) # post"
    and "\<forall>pv \<in> set pre. \<not> violates isUnresolved (snd pv)"
    and "violates isUnresolved (JStr s)"
  shows "assertNoHardCodedValues isUnresolved t ctx =
     Inl (Error ((if arnTest s then ''Hardcoded ARN'' else ''Hardcoded S3 URI'')
                  @ '' detected at '' @ joinPath p @ '' in '' @ ctx))"
proof -
  have "\<forall>pv \<in> set pre. hardCodedVisitor isUnresolved ctx (snd pv) (fst pv) = Inr ()"
    using assms(2) by (simp add: visitor_ok_iff)
  then show ?thesis
    unfolding assertNoHardCodedValues_def visit_is_firstError(1) assms(1)
    using visitor_violation [OF assms(3)] by (intro firstError_first) auto
qed

theorem C5_fails_at_first_violation_witness:
  "walk (JObj [(''a'', JObj [(''b'', JStr ''arn:aws:svc:region:123456789012:resource/x''),
                             (''c'', JStr ''s3://bucket/key'')])]) []
     = [([], JObj [(''a'', JObj [(''b'', JStr ''arn:aws:svc:region:123456789012:resource/x''),
                                 (''c'', JStr ''s3://bucket/key'')])]),
        ([Key ''a''], JObj [(''b'', JStr ''arn:aws:svc:region:123456789012:resource/x''),
                            (''c'', JStr ''s3://bucket/key'')])]
       @ ([Key ''a'', Key ''b''], JStr ''arn:aws:svc:region:123456789012:resource/x'')
       # [([Key ''a'', Key ''c''], JStr ''s3://bucket/key'')]
   \<and> violates hasTokenMarker (JStr ''arn:aws:svc:region:123456789012:resource/x'')
   \<and> violates hasTokenMarker (JStr ''s3://bucket/key'')
   \<and> assertNoHardCodedValues hasTokenMarker
        (JObj [(''a'', JObj [(''b'', JStr ''arn:aws:svc:region:123456789012:resource/x''),
                             (''c'', JStr ''s3://bucket/key'')])]) ''test''
       = Inl (Error ''Hardcoded ARN detected at a.b in test'')"
proof -
  let ?arn = "''arn:aws:svc:region:123456789012:resource/x''"
  let ?inner = "JObj [(''b'', JStr ?arn), (''c'', JStr ''s3://bucket/key'')]"
  let ?t = "JObj [(''a'', ?inner)]"
  have w: "walk ?t [] = [([], ?t), ([Key ''a''], ?inner)]
             @ ([Key ''a'', Key ''b''], JStr ?arn) # [([Key ''a'', Key ''c''], JStr ''s3://bucket/key'')]"
    by simp
  have pre: "\<forall>pv \<in> set [([], ?t), ([Key ''a''], ?inner)]. \<not> violates hasTokenMarker (snd pv)"
    by (simp add: violates_def)
  have a: "arnTest ?arn" by code_simp
  have v: "violates hasTokenMarker (JStr ?arn)" by code_simp
  have v2: "violates hasTokenMarker (JStr ''s3://bucket/key'')" by code_simp
  have m: "(if arnTest ?arn then ''Hardcoded ARN'' else ''Hardcoded S3 URI'')
             @ '' detected at '' @ joinPath [Key ''a'', Key ''b''] @ '' in '' @ ''test''
           = ''Hardcoded ARN detected at a.b in test''"
    using a by (simp add: joinPath_def)
  show ?thesis
    using C5_fails_at_first_violation [OF w pre v, of "''test''"] w v v2
    unfolding m by blast
qed

text \<open>
  Claim C6. When no node that the walker visits violates, that is, every visited string
  either is an unresolved token or matches neither forbidden pattern,
  \<^verbatim>\<open>assertNoHardCodedValues\<close> returns without failing. An unresolved string is never a
  violation, whatever it contains.
\<close>

theorem C6_clean_tree_passes:
  assumes "\<forall>pv \<in> set (walk t []). \<forall>s. snd pv = JStr s \<longrightarrow> isUnresolved s \<or> \<not> forbidden s"
  shows "assertNoHardCodedValues isUnresolved t ctx = Inr ()"
proof -
  have "\<not> violates isUnresolved (snd pv)" if "pv \<in> set (walk t [])" for pv
    using assms that by (auto simp: violates_def split: json.splits)
  then show ?thesis by (simp add: assert_ok_iff)
qed

theorem C6_clean_tree_passes_witness:
  "hasTokenMarker ''arn:aws:quicksight:us-east-1:123456789012:dataset/${Token[TOKEN.7]}''
   \<and> forbidden ''arn:aws:quicksight:us-east-1:123456789012:dataset/${Token[TOKEN.7]}''
   \<and> assertNoHardCodedValues hasTokenMarker
        (JObj [(''value'', JStr ''arn:aws:quicksight:us-east-1:123456789012:dataset/${Token[TOKEN.7]}''),
               (''items'', JArr [JNum 1, JStr ''plain text''])]) ''test'' = Inr ()"
proof -
  let ?arn = "''arn:aws:quicksight:us-east-1:123456789012:dataset/${Token[TOKEN.7]}''"
  let ?t = "JObj [(''value'', JStr ?arn), (''items'', JArr [JNum 1, JStr ''plain text''])]"
  have u: "hasTokenMarker ?arn" by code_simp
  have f: "forbidden ?arn" by code_simp
  have c: "\<not> forbidden ''plain text''" by code_simp
  have h: "\<forall>pv \<in> set (walk ?t []). \<forall>s. snd pv = JStr s \<longrightarrow> hasTokenMarker s \<or> \<not> forbidden s"
    using u c by simp
  show ?thesis
    using C6_clean_tree_passes [OF h, of "''test''"] u f by blast
qed


section \<open>ParameterResolver\<close>

lemma lookupFromConfig_cases:
  "lookupFromConfig sources key =
     (case nonEmptyString (layerValue (stack sources) key) of
        Some s \<Rightarrow> Some s
      | None \<Rightarrow> nonEmptyString (layerValue (global sources) key))"
  by (simp add: lookupFromConfig_def Let_def split: option.splits)

lemma lookupFromConfig_nonempty: "lookupFromConfig sources key = Some s \<Longrightarrow> s \<noteq> []"
  by (auto simp: lookupFromConfig_cases nonEmptyString_def
      split: option.splits json.splits if_splits)

text \<open>An override that is a non-empty string is the resolved value.\<close>

lemma resolved_override:
  "tryGetContext ident = Some (JStr ov) \<Longrightarrow> ov \<noteq> [] \<Longrightarrow>
   resolved (createStringParameter tryGetContext ident propsDefault sources) = Some ov"
  by (simp add: createStringParameter_def Let_def nonEmptyString_def)

text \<open>
  Without an override (\<^verbatim>\<open>undefined\<close> or \<^verbatim>\<open>null\<close>) the stack layer, then the global
  layer, then the declared default give the resolved value, each only as a non-empty string.
\<close>

lemma resolved_no_override:
  assumes "tryGetContext ident = None \<or> tryGetContext ident = Some JNull"
  shows "resolved (createStringParameter tryGetContext ident propsDefault sources) =
     (case lookupFromConfig sources ident of
        Some s \<Rightarrow> Some s
      | None \<Rightarrow> nonEmptyString propsDefault)"
proof (cases "lookupFromConfig sources ident")
  case None
  then show ?thesis using assms
    by (auto simp: createStringParameter_def Let_def nonEmptyString_def)
next
  case (Some s)
  then have "s \<noteq> []" by (rule lookupFromConfig_nonempty)
  then show ?thesis using assms Some
    by (auto simp: createStringParameter_def Let_def nonEmptyString_def)
qed

text \<open>
  Any other override (the empty string, a number, a boolean, an object) is not skipped in
  favour of the configuration: the resolved value comes from the declared default alone.
\<close>

lemma resolved_other_override:
  "tryGetContext ident = Some v \<Longrightarrow> v \<noteq> JNull \<Longrightarrow> nonEmptyString (Some v) = None \<Longrightarrow>
   resolved (createStringParameter tryGetContext ident propsDefault sources)
     = nonEmptyString propsDefault"
  by (cases v) (auto simp: createStringParameter_def Let_def)

text \<open>
  Claim C1 says that an empty string is skipped at every layer and that the first layer
  with a non-empty string wins. With the empty string as override, a stack value \<open>S\<close>, a
  global value \<open>G\<close> and the declared default \<open>D\<close>, the configuration lookup alone gives
  \<open>S\<close>, but the resolved value of \<^verbatim>\<open>createStringParameter\<close> is \<open>D\<close>: the empty override
  keeps the two configuration layers from being consulted.
\<close>

theorem C1_empty_override_hides_config:
  "lookupFromConfig
      \<lparr>global = Some [''P'' \<mapsto> JStr ''G''], stack = Some [''P'' \<mapsto> JStr ''S'']\<rparr> ''P''
     = Some ''S''
   \<and> resolved (createStringParameter [''P'' \<mapsto> JStr ''''] ''P'' (Some (JStr ''D''))
        \<lparr>global = Some [''P'' \<mapsto> JStr ''G''], stack = Some [''P'' \<mapsto> JStr ''S'']\<rparr>)
     = Some ''D''
   \<and> resolved (createStringParameter Map.empty ''P'' (Some (JStr ''D''))
        \<lparr>global = Some [''P'' \<mapsto> JStr ''G''], stack = Some [''P'' \<mapsto> JStr ''S'']\<rparr>)
     = Some ''S''"
  by (simp add: createStringParameter_def lookupFromConfig_def layerValue_def
      nonEmptyString_def Let_def)


section \<open>ScheduleTimeConverter\<close>

lemma digit_facts:
  assumes "isDigit c"
  shows "c \<noteq> CHR '':''" "c \<noteq> CHR ''-''" "c \<noteq> CHR ''+''" "\<not> isWhiteSpace c"
  using assms by (auto simp: isDigit_def isWhiteSpace_def)

lemma parseInt_two_digits:
  assumes "isDigit a" "isDigit b"
  shows "parseInt [a, b] = Some (int (10 * digitValue a + digitValue b))"
  using assms digit_facts [OF assms(1)] by (simp add: parseInt_def digitsValue_def)

lemma split_hh_mm:
  assumes "isDigit h1" "isDigit h2" "isDigit m1" "isDigit m2"
  shows "splitStr CHR '':'' [h1, h2, CHR '':'', m1, m2] = [[h1, h2], [m1, m2]]"
  using digit_facts(1) [OF assms(1)] digit_facts(1) [OF assms(2)]
    digit_facts(1) [OF assms(3)] digit_facts(1) [OF assms(4)] by simp

lemma makeDay_epoch: "makeDay 1970 0 1 = 0"
  by (simp add: makeDay_def dayFromYear_def daysBeforeMonth_def inLeapYear_def)

text \<open>
  The reference instant is hour and minute counted from the epoch: the first two fields
  of the text, each read by \<^verbatim>\<open>parseInt\<close>. Nothing else of the text is looked at.
\<close>

lemma referenceTime_fields:
  "referenceTime localTime =
     (case map parseInt (splitStr CHR '':'' localTime) of
        Some h # Some m # _ \<Rightarrow> timeClip (h * 3600000 + m * 60000)
      | _ \<Rightarrow> None)"
  by (auto simp: referenceTime_def Let_def dateUTC_def makeDay_epoch makeTime_def
      split: list.splits option.splits)

lemma referenceTime_wellFormed:
  assumes "wellFormedLocalTime lt"
  shows "referenceTime lt = Some (int (hourOf lt) * 3600000 + int (minuteOf lt) * 60000)"
proof -
  from assms obtain h1 h2 m1 m2 where lt: "lt = [h1, h2, CHR '':'', m1, m2]"
    and d: "isDigit h1" "isDigit h2" "isDigit m1" "isDigit m2"
    and r: "10 * digitValue h1 + digitValue h2 \<le> 23" "10 * digitValue m1 + digitValue m2 \<le> 59"
    by (auto simp: wellFormedLocalTime_def split: list.splits)
  have "referenceTime lt = timeClip (int (hourOf lt) * 3600000 + int (minuteOf lt) * 60000)"
    unfolding referenceTime_fields lt split_hh_mm [OF d]
    by (simp add: parseInt_two_digits d hourOf_def minuteOf_def)
  moreover have "hourOf lt \<le> 23" "minuteOf lt \<le> 59"
    using r by (simp_all add: hourOf_def minuteOf_def lt)
  ultimately show ?thesis by (simp add: timeClip_def)
qed




lemma showNat_digit: "n < 10 \<Longrightarrow> showNat n = [digitChar n]"
  by (subst showNat.simps) simp

lemma showNat_length:
  assumes "n < 100"
  shows "length (showNat n) = (if n < 10 then 1 else 2)"
proof (cases "n < 10")
  case True
  then show ?thesis by (simp add: showNat_digit)
next
  case False
  have "n div 10 < 10" using assms by simp
  then have "showNat (n div 10) = [digitChar (n div 10)]" by (rule showNat_digit)
  moreover have "showNat n = showNat (n div 10) @ [digitChar n]"
    using False by (subst showNat.simps) simp
  ultimately show ?thesis using False by simp
qed

lemma twoDigits_length: "n < 100 \<Longrightarrow> length (twoDigits (Some n)) = 2"
  by (simp add: twoDigits_def padStart2_def showNat_length)

lemma convert_general:
  assumes "zones z = Some f" and "referenceTime lt = Some r"
    and "showsWallClock (f r) y mo d h mi s"
    and "dateUTC (Some y) (Some (mo - 1)) (Some d) (Some h) (Some mi) (Some s) = Some a"
    and "timeClip (r - (a - r)) = Some u"
  shows "convertLocalTimeToUtc zones lt z =
           Inr (twoDigits (Some (hourFromTime u)) @ '':'' @ twoDigits (Some (minFromTime u)))"
  using assms
  by (simp add: convertLocalTimeToUtc_def getTimeZoneOffset_def Let_def showsWallClock_def)

lemma reference_examples:
  "referenceTime ''10:00'' = Some 36000000"
  "referenceTime ''00:30'' = Some 1800000"
  "referenceTime ''25:00'' = Some 90000000"
  "referenceTime ''9:00'' = Some 32400000"
  by code_simp+

lemma dateUTC_examples:
  "dateUTC (Some 1970) (Some (1 - 1)) (Some 1) (Some 17) (Some 0) (Some 0) = Some 61200000"
  "dateUTC (Some 1969) (Some (12 - 1)) (Some 31) (Some 19) (Some 30) (Some 0) = Some (- 16200000)"
  by code_simp+

lemma format_examples:
  "twoDigits (Some (hourFromTime 10800000)) @ '':'' @ twoDigits (Some (minFromTime 10800000))
     = ''03:00''"
  "twoDigits (Some (hourFromTime 19800000)) @ '':'' @ twoDigits (Some (minFromTime 19800000))
     = ''05:30''"
  by code_simp+

lemma convert_bangkok:
  assumes "zones ''Asia/Bangkok'' = Some f" "showsWallClock (f 36000000) 1970 1 1 17 0 0"
  shows "convertLocalTimeToUtc zones ''10:00'' ''Asia/Bangkok'' = Inr ''03:00''"
  using convert_general [where zones = zones and f = f and r = 36000000 and a = 61200000
      and u = 10800000, OF assms(1) reference_examples(1) assms(2) dateUTC_examples(1)]
    format_examples(1)
  by (simp add: timeClip_def)

lemma convert_new_york:
  assumes "zones ''America/New_York'' = Some f"
    "showsWallClock (f 1800000) 1969 12 31 19 30 0"
  shows "convertLocalTimeToUtc zones ''00:30'' ''America/New_York'' = Inr ''05:30''"
  using convert_general [where zones = zones and f = f and r = 1800000 and a = "- 16200000"
      and u = 19800000, OF assms(1) reference_examples(2) assms(2) dateUTC_examples(2)]
    format_examples(2)
  by (simp add: timeClip_def)

lemma sample_bangkok:
  "sampleZones ''Asia/Bangkok'' = Some (fixedOffsetZone 420)"
  "showsWallClock (fixedOffsetZone 420 36000000) 1970 1 1 17 0 0"
  "showsWallClock (fixedOffsetZone 420 1800000) 1970 1 1 7 30 0"
  by (simp add: sampleZones_def) code_simp+

lemma sample_new_york:
  "sampleZones ''America/New_York'' = Some (fixedOffsetZone (- 300))"
  "showsWallClock (fixedOffsetZone (- 300) 1800000) 1969 12 31 19 30 0"
  by (simp add: sampleZones_def) code_simp




text \<open>
  Claim C4. The local hour and minute are read as a UTC instant on 1 January 1970; the
  zone's offset is the instant rebuilt from the wall-clock fields that the formatter
  shows for that instant in the zone, minus the instant; the result is the hour and the
  minute of the instant minus the offset, each with two digits, the hour taken modulo 24
  (so a result before or after the reference day wraps). With a runtime in which Bangkok
  shows 17:00 on 1 January 1970 for 10:00 UTC, \<open>10:00\<close> gives \<open>03:00\<close>; with one in which
  New York shows 19:30 on 31 December 1969 for 00:30 UTC, \<open>00:30\<close> gives \<open>05:30\<close>.
\<close>

theorem C4_local_time_to_utc:
  "(wellFormedLocalTime lt \<and> zones z = Some f
      \<and> r = int (hourOf lt) * 3600000 + int (minuteOf lt) * 60000
      \<and> showsWallClock (f r) y mo d h mi s
      \<and> dateUTC (Some y) (Some (mo - 1)) (Some d) (Some h) (Some mi) (Some s) = Some a
      \<and> timeClip (r - (a - r)) = Some u
    \<longrightarrow> convertLocalTimeToUtc zones lt z =
          Inr (twoDigits (Some (hourFromTime u)) @ '':'' @ twoDigits (Some (minFromTime u)))
        \<and> hourFromTime u < 24 \<and> minFromTime u < 60
        \<and> length (twoDigits (Some (hourFromTime u))) = 2
        \<and> length (twoDigits (Some (minFromTime u))) = 2)
   \<and> (zones ''Asia/Bangkok'' = Some fb \<and> showsWallClock (fb 36000000) 1970 1 1 17 0 0
        \<longrightarrow> convertLocalTimeToUtc zones ''10:00'' ''Asia/Bangkok'' = Inr ''03:00'')
   \<and> (zones ''America/New_York'' = Some fn \<and> showsWallClock (fn 1800000) 1969 12 31 19 30 0
        \<longrightarrow> convertLocalTimeToUtc zones ''00:30'' ''America/New_York'' = Inr ''05:30'')"
proof (intro conjI impI)
  assume h: "wellFormedLocalTime lt \<and> zones z = Some f
      \<and> r = int (hourOf lt) * 3600000 + int (minuteOf lt) * 60000
      \<and> showsWallClock (f r) y mo d h mi s
      \<and> dateUTC (Some y) (Some (mo - 1)) (Some d) (Some h) (Some mi) (Some s) = Some a
      \<and> timeClip (r - (a - r)) = Some u"
  then have w: "wellFormedLocalTime lt" and z: "zones z = Some f"
    and r: "r = int (hourOf lt) * 3600000 + int (minuteOf lt) * 60000"
    and p: "showsWallClock (f r) y mo d h mi s"
    and a: "dateUTC (Some y) (Some (mo - 1)) (Some d) (Some h) (Some mi) (Some s) = Some a"
    and u: "timeClip (r - (a - r)) = Some u"
    by blast+
  have t: "referenceTime lt = Some r"
    unfolding r by (rule referenceTime_wellFormed [OF w])
  show "convertLocalTimeToUtc zones lt z =
          Inr (twoDigits (Some (hourFromTime u)) @ '':'' @ twoDigits (Some (minFromTime u)))"
    by (rule convert_general [where zones = zones and z = z and f = f and r = r and a = a, OF z t p a u])
  show hr: "hourFromTime u < 24" by (simp add: hourFromTime_def)
  show mn: "minFromTime u < 60" by (simp add: minFromTime_def)
  show "length (twoDigits (Some (hourFromTime u))) = 2"
    using hr by (intro twoDigits_length) simp
  show "length (twoDigits (Some (minFromTime u))) = 2"
    using mn by (intro twoDigits_length) simp
next
  assume "zones ''Asia/Bangkok'' = Some fb \<and> showsWallClock (fb 36000000) 1970 1 1 17 0 0"
  then show "convertLocalTimeToUtc zones ''10:00'' ''Asia/Bangkok'' = Inr ''03:00''"
    by (auto intro: convert_bangkok)
next
  assume "zones ''America/New_York'' = Some fn \<and> showsWallClock (fn 1800000) 1969 12 31 19 30 0"
  then show "convertLocalTimeToUtc zones ''00:30'' ''America/New_York'' = Inr ''05:30''"
    by (auto intro: convert_new_york)
qed

theorem C4_local_time_to_utc_witness:
  "sampleZones ''Asia/Bangkok'' = Some (fixedOffsetZone 420)
   \<and> showsWallClock (fixedOffsetZone 420 36000000) 1970 1 1 17 0 0
   \<and> convertLocalTimeToUtc sampleZones ''10:00'' ''Asia/Bangkok'' = Inr ''03:00''
   \<and> sampleZones ''America/New_York'' = Some (fixedOffsetZone (- 300))
   \<and> showsWallClock (fixedOffsetZone (- 300) 1800000) 1969 12 31 19 30 0
   \<and> convertLocalTimeToUtc sampleZones ''00:30'' ''America/New_York'' = Inr ''05:30''
   \<and> wellFormedLocalTime ''00:30''
   \<and> showsWallClock (fixedOffsetZone 420 1800000) 1970 1 1 7 30 0
   \<and> convertLocalTimeToUtc sampleZones ''00:30'' ''Asia/Bangkok'' = Inr ''17:30''"
proof -
  have w: "wellFormedLocalTime ''00:30''" by code_simp
  have r: "(1800000::int) = int (hourOf ''00:30'') * 3600000 + int (minuteOf ''00:30'') * 60000"
    by code_simp
  have a: "dateUTC (Some 1970) (Some (1 - 1)) (Some 1) (Some 7) (Some 30) (Some 0) = Some 27000000"
    by code_simp
  have c: "timeClip (1800000 - (27000000 - 1800000)) = Some (- 23400000)"
    by (simp add: timeClip_def)
  have t: "twoDigits (Some (hourFromTime (- 23400000))) @ '':''
             @ twoDigits (Some (minFromTime (- 23400000))) = ''17:30''"
    by code_simp
  have g: "convertLocalTimeToUtc sampleZones ''00:30'' ''Asia/Bangkok'' = Inr ''17:30''"
    using C4_local_time_to_utc [of "''00:30''" sampleZones "''Asia/Bangkok''" "fixedOffsetZone 420"
        1800000 1970 1 1 7 30 0 27000000 "- 23400000" "fixedOffsetZone 420" "fixedOffsetZone (- 300)"]
      w r a c sample_bangkok(1,3)
    unfolding t by blast
  have b: "convertLocalTimeToUtc sampleZones ''10:00'' ''Asia/Bangkok'' = Inr ''03:00''"
    using C4_local_time_to_utc [of "''00:30''" sampleZones "''Asia/Bangkok''" "fixedOffsetZone 420"
        1800000 1970 1 1 7 30 0 27000000 "- 23400000" "fixedOffsetZone 420" "fixedOffsetZone (- 300)"]
      sample_bangkok(1,2)
    by blast
  have n: "convertLocalTimeToUtc sampleZones ''00:30'' ''America/New_York'' = Inr ''05:30''"
    using C4_local_time_to_utc [of "''00:30''" sampleZones "''Asia/Bangkok''" "fixedOffsetZone 420"
        1800000 1970 1 1 7 30 0 27000000 "- 23400000" "fixedOffsetZone 420" "fixedOffsetZone (- 300)"]
      sample_new_york
    by blast
  show ?thesis using g b n w sample_bangkok sample_new_york by blast
qed

end
